theory Spec2Isabelle
  imports Main
begin

section \<open>Theme toggle (static/js/theme-toggle.js)\<close>

subsection \<open>The browser state the script reads and writes\<close>

text \<open>
  The three string constants of the script.
\<close>

definition THEME_KEY :: string where
  "THEME_KEY = ''aims-theme''"

definition DARK_THEME :: string where
  "DARK_THEME = ''dark''"

definition LIGHT_THEME :: string where
  "LIGHT_THEME = ''light''"

text \<open>
  An element matching \<^verbatim>\<open>.theme-toggle\<close>: its two attributes written by the script (an
  attribute is absent or holds a string) and whether \<^verbatim>\<open>toggleTheme\<close> is registered as
  its click listener.
\<close>

record toggle_control =
  ariaPressed :: "string option"
  title :: "string option"
  clickTogglesTheme :: bool

datatype ready_state = Loading | Interactive | Complete

text \<open>
  The part of the browser the script touches:
  \<^item> \<open>dataTheme\<close>: the \<^verbatim>\<open>data-theme\<close> attribute of \<^verbatim>\<open>document.documentElement\<close>;
  \<^item> \<open>localStorage\<close>: the items of \<^verbatim>\<open>localStorage\<close>, keys and values are strings;
  \<^item> \<open>setItemThrows\<close>: whether \<^verbatim>\<open>localStorage.setItem\<close> throws (quota exhausted or
    storage denied by policy); the script never catches anything;
  \<^item> \<open>prefersDark\<close>: \<^verbatim>\<open>window.matchMedia('(prefers-color-scheme: dark)').matches\<close>;
  \<^item> \<open>toggleControls\<close>: the elements matching \<^verbatim>\<open>.theme-toggle\<close>, in document order;
  \<^item> \<open>readyState\<close>: \<^verbatim>\<open>document.readyState\<close>;
  \<^item> \<open>initThemeOnDOMContentLoaded\<close>: whether \<^verbatim>\<open>initTheme\<close> is registered as a
    \<^verbatim>\<open>DOMContentLoaded\<close> listener;
  \<^item> \<open>windowToggleTheme\<close>: whether \<^verbatim>\<open>window.toggleTheme\<close> has been assigned.
\<close>

record page =
  dataTheme :: "string option"
  localStorage :: "string \<rightharpoonup> string"
  setItemThrows :: bool
  prefersDark :: bool
  toggleControls :: "toggle_control list"
  readyState :: ready_state
  initThemeOnDOMContentLoaded :: bool
  windowToggleTheme :: bool

text \<open>
  A call either returns, or throws with the page as it was left at the throw. Nothing in
  the script catches, so a throw ends the running script or event handler.
\<close>

datatype js_error = StorageError

datatype outcome = Returned page | Thrown js_error page

fun pageOf :: "outcome \<Rightarrow> page" where
  "pageOf (Returned s) = s"
| "pageOf (Thrown e s) = s"

fun hasReturned :: "outcome \<Rightarrow> bool" where
  "hasReturned (Returned s) = True"
| "hasReturned (Thrown e s) = False"

text \<open>Statement sequencing: the second statement runs only when the first returned.\<close>

fun andThen :: "outcome \<Rightarrow> (page \<Rightarrow> outcome) \<Rightarrow> outcome" where
  "andThen (Returned s) f = f s"
| "andThen (Thrown e s) f = Thrown e s"

text \<open>
  Truthiness of a value that is \<^verbatim>\<open>null\<close> or a string: \<^verbatim>\<open>null\<close> and the empty string
  are falsy. \<^verbatim>\<open>v || d\<close> is \<open>v\<close> when \<open>v\<close> is truthy and \<open>d\<close> otherwise.
\<close>

fun truthy :: "string option \<Rightarrow> bool" where
  "truthy None = False"
| "truthy (Some v) = (v \<noteq> [])"

fun orDefault :: "string option \<Rightarrow> string \<Rightarrow> string" where
  "orDefault None d = d"
| "orDefault (Some v) d = (if truthy (Some v) then v else d)"

text \<open>\<^verbatim>\<open>localStorage.getItem(k)\<close>: \<^verbatim>\<open>null\<close> (here \<open>None\<close>) when there is no item.\<close>

definition getItem :: "page \<Rightarrow> string \<Rightarrow> string option" where
  "getItem s k = localStorage s k"

definition setItem :: "string \<Rightarrow> string \<Rightarrow> page \<Rightarrow> outcome" where
  "setItem k v s =
     (if setItemThrows s then Thrown StorageError s
      else Returned (s\<lparr>localStorage := (localStorage s)(k \<mapsto> v)\<rparr>))"

subsection \<open>The functions of the script\<close>

text \<open>
  \<^verbatim>\<open>function getSavedTheme() { return localStorage.getItem(THEME_KEY) || LIGHT_THEME; }\<close>
\<close>

definition getSavedTheme :: "page \<Rightarrow> string" where
  "getSavedTheme s = orDefault (getItem s THEME_KEY) LIGHT_THEME"

text \<open>
  The two \<^verbatim>\<open>setAttribute\<close> calls of \<^verbatim>\<open>applyTheme\<close> on one control; the boolean
  \<^verbatim>\<open>theme === DARK_THEME\<close> is stored as the string \<^verbatim>\<open>true\<close> or \<^verbatim>\<open>false\<close>.
\<close>

definition updateToggle :: "string \<Rightarrow> toggle_control \<Rightarrow> toggle_control" where
  "updateToggle theme b =
     b\<lparr>ariaPressed := Some (if theme = DARK_THEME then ''true'' else ''false''),
       title := Some (if theme = DARK_THEME then ''Switch to Light Mode''
                      else ''Switch to Dark Mode'')\<rparr>"

text \<open>
  \<^verbatim>\<open>document.querySelector('.theme-toggle')\<close> is the first matching element, or
  \<^verbatim>\<open>null\<close>; the \<^verbatim>\<open>if (toggleBtn)\<close> block updates that one element.
\<close>

fun updateFirstToggle :: "string \<Rightarrow> toggle_control list \<Rightarrow> toggle_control list" where
  "updateFirstToggle theme [] = []"
| "updateFirstToggle theme (b # bs) = updateToggle theme b # bs"

text \<open>
  \<^verbatim>\<open>applyTheme(theme)\<close>: the marker is set first, then the item is stored (which may
  throw), then the first toggle control is updated.
\<close>

definition applyTheme :: "string \<Rightarrow> page \<Rightarrow> outcome" where
  "applyTheme theme s =
     andThen (setItem THEME_KEY theme (s\<lparr>dataTheme := Some theme\<rparr>))
       (\<lambda>s1. Returned (s1\<lparr>toggleControls := updateFirstToggle theme (toggleControls s1)\<rparr>))"

text \<open>
  \<^verbatim>\<open>toggleTheme()\<close>: reads the marker (\<^verbatim>\<open>getAttribute(...) || LIGHT_THEME\<close>) and applies
  the other theme.
\<close>

definition toggleTheme :: "page \<Rightarrow> outcome" where
  "toggleTheme s =
     (let currentTheme = orDefault (dataTheme s) LIGHT_THEME;
          newTheme = (if currentTheme = DARK_THEME then LIGHT_THEME else DARK_THEME)
      in applyTheme newTheme s)"

text \<open>
  \<^verbatim>\<open>initTheme()\<close>: applies \<^verbatim>\<open>getSavedTheme()\<close>, then registers \<^verbatim>\<open>toggleTheme\<close> as click
  listener on every element of \<^verbatim>\<open>querySelectorAll('.theme-toggle')\<close>.
\<close>

definition initTheme :: "page \<Rightarrow> outcome" where
  "initTheme s =
     andThen (applyTheme (getSavedTheme s) s)
       (\<lambda>s1. Returned (s1\<lparr>toggleControls :=
                 map (\<lambda>b. b\<lparr>clickTogglesTheme := True\<rparr>) (toggleControls s1)\<rparr>))"

text \<open>
  \<^verbatim>\<open>checkSystemPreference()\<close>: the ambient signal when \<^verbatim>\<open>!localStorage.getItem(THEME_KEY)\<close>
  (no item, or the empty string), \<^verbatim>\<open>getSavedTheme()\<close> otherwise.
\<close>

definition checkSystemPreference :: "page \<Rightarrow> string" where
  "checkSystemPreference s =
     (if \<not> truthy (getItem s THEME_KEY) then
        (if prefersDark s then DARK_THEME else LIGHT_THEME)
      else getSavedTheme s)"

text \<open>
  The immediately invoked function that prevents the flash: the marker is set to
  \<^verbatim>\<open>checkSystemPreference()\<close>.
\<close>

definition antiFlash :: "page \<Rightarrow> page" where
  "antiFlash s = s\<lparr>dataTheme := Some (checkSystemPreference s)\<rparr>"

text \<open>
  The body of the script, run once when the script is evaluated: the anti-flash pass,
  then \<^verbatim>\<open>initTheme\<close> now or as a \<^verbatim>\<open>DOMContentLoaded\<close> listener, then the assignment of
  \<^verbatim>\<open>window.toggleTheme\<close>.
\<close>

definition runScript :: "page \<Rightarrow> outcome" where
  "runScript s =
     andThen
       (let s1 = antiFlash s in
        if readyState s1 = Loading
        then Returned (s1\<lparr>initThemeOnDOMContentLoaded := True\<rparr>)
        else initTheme s1)
       (\<lambda>s2. Returned (s2\<lparr>windowToggleTheme := True\<rparr>))"

text \<open>
  The browser firing \<^verbatim>\<open>DOMContentLoaded\<close>: the document is then \<^verbatim>\<open>interactive\<close> and the
  registered listener runs.
\<close>

definition fireDOMContentLoaded :: "page \<Rightarrow> outcome" where
  "fireDOMContentLoaded s =
     (let s1 = s\<lparr>readyState := Interactive\<rparr> in
      if initThemeOnDOMContentLoaded s1 then initTheme s1 else Returned s1)"

text \<open>
  A page load as far as the theme is concerned: the script is evaluated; when the
  document was still loading, the browser fires \<^verbatim>\<open>DOMContentLoaded\<close> afterwards.
\<close>

definition pageLoad :: "page \<Rightarrow> outcome" where
  "pageLoad s =
     (if readyState s = Loading then andThen (runScript s) fireDOMContentLoaded
      else runScript s)"

section \<open>Alert auto-dismiss (the main script)\<close>

subsection \<open>\<^verbatim>\<open>parseInt\<close> with one argument\<close>

text \<open>
  \<^verbatim>\<open>parseInt(string)\<close> as ECMAScript defines it when no radix is given: leading white
  space is skipped, then an optional sign, then an optional \<^verbatim>\<open>0x\<close> or \<^verbatim>\<open>0X\<close> (which
  selects radix 16, otherwise the radix is 10), then the longest run of digits of that
  radix; anything after it is ignored. With no digit the result is \<^verbatim>\<open>NaN\<close>, here
  \<open>None\<close>. Numbers are modelled as unbounded integers, so \<^verbatim>\<open>-0\<close> is \<open>0\<close>, and the
  rounding of values beyond 2^53 is not modelled. A character is a code unit below 256;
  of the ECMAScript white space those are TAB, LF, VT, FF, CR, SP and the no-break space
  U+00A0.
\<close>

definition isWhiteSpace :: "char \<Rightarrow> bool" where
  "isWhiteSpace c = ((of_char c :: nat) \<in> {9, 10, 11, 12, 13, 32, 160})"

definition digitValue :: "char \<Rightarrow> nat option" where
  "digitValue c =
     (let n = (of_char c :: nat) in
      if 48 \<le> n \<and> n \<le> 57 then Some (n - 48)
      else if 97 \<le> n \<and> n \<le> 122 then Some (n - 87)
      else if 65 \<le> n \<and> n \<le> 90 then Some (n - 55)
      else None)"

definition isRadixDigit :: "nat \<Rightarrow> char \<Rightarrow> bool" where
  "isRadixDigit r c = (case digitValue c of None \<Rightarrow> False | Some d \<Rightarrow> d < r)"

definition digitsValue :: "nat \<Rightarrow> string \<Rightarrow> int" where
  "digitsValue r z =
     foldl (\<lambda>acc c. acc * int r + int (case digitValue c of None \<Rightarrow> 0 | Some d \<Rightarrow> d)) 0 z"

definition parseInt :: "string \<Rightarrow> int option" where
  "parseInt inputString =
     (let S = dropWhile isWhiteSpace inputString;
          sign = (if take 1 S = ''-'' then (-1::int) else 1);
          S1 = (if take 1 S = ''+'' \<or> take 1 S = ''-'' then drop 1 S else S);
          hex = (take 2 S1 = ''0x'' \<or> take 2 S1 = ''0X'');
          R = (if hex then 16 else 10);
          S2 = (if hex then drop 2 S1 else S1);
          Z = takeWhile (isRadixDigit R) S2
      in if Z = [] then None else Some (sign * digitsValue R Z))"

text \<open>\<^verbatim>\<open>n || d\<close> for a number \<open>n\<close>: \<^verbatim>\<open>NaN\<close> and zero are falsy.\<close>

fun numOrDefault :: "int option \<Rightarrow> int \<Rightarrow> int" where
  "numOrDefault None d = d"
| "numOrDefault (Some n) d = (if n = 0 then d else n)"

subsection \<open>Alerts and timers\<close>

text \<open>
  An element matching \<^verbatim>\<open>.alert[data-dismiss]\<close>: the value of its \<^verbatim>\<open>data-dismiss\<close>
  attribute (present, since the selector asks for it), its \<^verbatim>\<open>style.opacity\<close> and whether
  it is still in the document.
\<close>

record alert =
  dismiss :: string
  opacity :: string
  inDocument :: bool

text \<open>
  The two timer callbacks of \<^verbatim>\<open>initAlerts\<close>, each closed over one alert, named by its
  position in the list \<^verbatim>\<open>querySelectorAll\<close> returned.
\<close>

datatype callback = FadeOut nat | RemoveAlert nat

text \<open>
  The alerts, the clock in milliseconds and the pending timers, each with the time at
  which it is due.
\<close>

record alerts_page =
  alerts :: "alert list"
  now :: int
  timers :: "(int \<times> callback) list"

text \<open>
  \<^verbatim>\<open>setTimeout(callback, delay)\<close>: the browser reads the delay as a 32-bit signed integer
  and takes a negative delay as zero; the timer is due that long after the current time.
\<close>

definition toInt32 :: "int \<Rightarrow> int" where
  "toInt32 n = (n + 2 ^ 31) mod 2 ^ 32 - 2 ^ 31"

definition setTimeout :: "callback \<Rightarrow> int \<Rightarrow> alerts_page \<Rightarrow> alerts_page" where
  "setTimeout cb delay s = s\<lparr>timers := timers s @ [(now s + max 0 (toInt32 delay), cb)]\<rparr>"

text \<open>\<^verbatim>\<open>const dismissTime = parseInt(alert.dataset.dismiss) || 5000;\<close>\<close>

definition dismissTime :: "alert \<Rightarrow> int" where
  "dismissTime a = numOrDefault (parseInt (dismiss a)) 5000"

text \<open>
  \<^verbatim>\<open>initAlerts()\<close>: for each alert, in order, a timer for its fade-out after
  \<open>dismissTime\<close>.
\<close>

fun scheduleAlerts :: "nat list \<Rightarrow> alerts_page \<Rightarrow> alerts_page" where
  "scheduleAlerts [] s = s"
| "scheduleAlerts (i # is) s =
     scheduleAlerts is (setTimeout (FadeOut i) (dismissTime (alerts s ! i)) s)"

definition initAlerts :: "alerts_page \<Rightarrow> alerts_page" where
  "initAlerts s = scheduleAlerts [0..<length (alerts s)] s"

text \<open>
  Running a callback: the fade-out sets the opacity to \<^verbatim>\<open>'0'\<close> and sets a timer of 300
  milliseconds for the removal; the removal takes the alert out of the document.
\<close>

fun runCallback :: "callback \<Rightarrow> alerts_page \<Rightarrow> alerts_page" where
  "runCallback (FadeOut i) s =
     setTimeout (RemoveAlert i) 300
       (s\<lparr>alerts := (alerts s)[i := (alerts s ! i)\<lparr>opacity := ''0''\<rparr>]\<rparr>)"
| "runCallback (RemoveAlert i) s =
     s\<lparr>alerts := (alerts s)[i := (alerts s ! i)\<lparr>inDocument := False\<rparr>]\<rparr>"

text \<open>
  The browser firing a pending timer: the clock is at its due time (never earlier than
  the current time), the timer leaves the list and its callback runs.
\<close>

definition fireTimer :: "int \<times> callback \<Rightarrow> alerts_page \<Rightarrow> alerts_page" where
  "fireTimer t s =
     runCallback (snd t) (s\<lparr>now := max (now s) (fst t), timers := remove1 t (timers s)\<rparr>)"

section \<open>Example states\<close>

text \<open>A toggle control as the markup delivers it: no attribute set, no listener.\<close>

definition freshControl :: toggle_control where
  "freshControl = \<lparr>ariaPressed = None, title = None, clickTogglesTheme = False\<rparr>"

text \<open>
  A first visit: nothing stored, the system prefers dark, three toggle controls in the
  document, which is still loading when the script is evaluated.
\<close>

definition freshPage :: page where
  "freshPage =
     \<lparr>dataTheme = None, localStorage = Map.empty, setItemThrows = False, prefersDark = True,
      toggleControls = [freshControl, freshControl, freshControl], readyState = Loading,
      initThemeOnDOMContentLoaded = False, windowToggleTheme = False\<rparr>"

text \<open>
  Three alerts: one whose \<^verbatim>\<open>data-dismiss\<close> is not a number, one whose value is zero, one
  with a delay of its own.
\<close>

definition exampleAlerts :: alerts_page where
  "exampleAlerts =
     \<lparr>alerts = [\<lparr>dismiss = ''soon'', opacity = [], inDocument = True\<rparr>,
                \<lparr>dismiss = ''0'', opacity = [], inDocument = True\<rparr>,
                \<lparr>dismiss = ''2000'', opacity = [], inDocument = True\<rparr>],
      now = 0, timers = []\<rparr>"

section \<open>Basic facts\<close>

lemma applyTheme_when_setItem_returns:
  "\<not> setItemThrows s \<Longrightarrow>
   applyTheme t s =
     Returned (s\<lparr>dataTheme := Some t, localStorage := (localStorage s)(THEME_KEY \<mapsto> t),
                 toggleControls := updateFirstToggle t (toggleControls s)\<rparr>)"
  by (simp add: applyTheme_def setItem_def)

lemma applyTheme_when_setItem_throws:
  "setItemThrows s \<Longrightarrow> applyTheme t s = Thrown StorageError (s\<lparr>dataTheme := Some t\<rparr>)"
  by (simp add: applyTheme_def setItem_def)

lemma updateFirstToggle_twice:
  "updateFirstToggle t (updateFirstToggle t bs) = updateFirstToggle t bs"
  by (cases bs) (simp_all add: updateToggle_def)

lemma updateFirstToggle_tl: "tl (updateFirstToggle t bs) = tl bs"
  by (cases bs) simp_all

lemma applyTheme_other_controls:
  "tl (toggleControls (pageOf (applyTheme t s))) = tl (toggleControls s)"
  by (cases "setItemThrows s")
    (simp_all add: applyTheme_when_setItem_returns applyTheme_when_setItem_throws
      updateFirstToggle_tl)

lemma toggleTheme_applies_other:
  "toggleTheme s =
     applyTheme (if orDefault (dataTheme s) LIGHT_THEME = DARK_THEME then LIGHT_THEME
                 else DARK_THEME) s"
  by (simp add: toggleTheme_def Let_def)

lemma scheduleAlerts_alerts: "alerts (scheduleAlerts ixs s) = alerts s"
  by (induction ixs arbitrary: s) (simp_all add: setTimeout_def)

lemma scheduleAlerts_now: "now (scheduleAlerts ixs s) = now s"
  by (induction ixs arbitrary: s) (simp_all add: setTimeout_def)

lemma scheduleAlerts_timers:
  "timers (scheduleAlerts ixs s) =
   timers s @ map (\<lambda>i. (now s + max 0 (toInt32 (dismissTime (alerts s ! i))), FadeOut i)) ixs"
  by (induction ixs arbitrary: s) (simp_all add: setTimeout_def)

lemma toInt32_5000: "toInt32 5000 = 5000"
  by (simp add: toInt32_def)

lemma toInt32_300: "toInt32 300 = 300"
  by (simp add: toInt32_def)

lemma dismissTime_falsy:
  "parseInt (dismiss a) = None \<or> parseInt (dismiss a) = Some 0 \<Longrightarrow> dismissTime a = 5000"
  by (auto simp add: dismissTime_def)

lemma initAlerts_timer_at:
  "i < length (alerts s) \<Longrightarrow>
   timers (initAlerts s) ! (length (timers s) + i) =
     (now s + max 0 (toInt32 (dismissTime (alerts s ! i))), FadeOut i)"
  by (simp add: initAlerts_def scheduleAlerts_timers nth_append)

lemma parseInt_soon: "parseInt ''soon'' = None"
  by (simp add: parseInt_def isWhiteSpace_def isRadixDigit_def digitValue_def)

lemma parseInt_zero: "parseInt ''0'' = Some 0"
  by (simp add: parseInt_def isWhiteSpace_def isRadixDigit_def digitValue_def digitsValue_def)

section \<open>The claims about the theme toggle\<close>

text \<open>
  Claim C1. On a first visit (nothing stored) with a system preference for dark, the
  claim expects the marker and the stored item to be \<^verbatim>\<open>dark\<close> once both phases have
  run. The script does otherwise: the anti-flash pass sets the marker to \<^verbatim>\<open>dark\<close>, but
  \<^verbatim>\<open>initTheme\<close> resolves with \<^verbatim>\<open>getSavedTheme\<close>, which ignores the system preference, so
  the load ends with marker \<^verbatim>\<open>light\<close> and stored item \<^verbatim>\<open>light\<close>, whether \<^verbatim>\<open>initTheme\<close> runs
  on \<^verbatim>\<open>DOMContentLoaded\<close> or at once.
\<close>

theorem fresh_load_dark_ambient_ends_light:
  "getItem freshPage THEME_KEY = None \<and> prefersDark freshPage \<and>
   hasReturned (pageLoad freshPage) \<and>
   dataTheme (pageOf (pageLoad freshPage)) = Some ''light'' \<and>
   getItem (pageOf (pageLoad freshPage)) THEME_KEY = Some ''light'' \<and>
   hasReturned (pageLoad (freshPage\<lparr>readyState := Complete\<rparr>)) \<and>
   dataTheme (pageOf (pageLoad (freshPage\<lparr>readyState := Complete\<rparr>))) = Some ''light'' \<and>
   getItem (pageOf (pageLoad (freshPage\<lparr>readyState := Complete\<rparr>))) THEME_KEY = Some ''light''"
  by (simp add: Let_def pageLoad_def runScript_def fireDOMContentLoaded_def initTheme_def
      antiFlash_def applyTheme_when_setItem_returns getSavedTheme_def getItem_def
      freshPage_def LIGHT_THEME_def)

text \<open>
  Claim C2. With three toggle controls in the document, the claim expects one call of
  \<^verbatim>\<open>toggleTheme\<close> to update the pressed state and the title of all three. The script
  updates the first control only (\<^verbatim>\<open>querySelector\<close>), although \<^verbatim>\<open>initTheme\<close> registers the
  click listener on all of them (\<^verbatim>\<open>querySelectorAll\<close>): after a page load and one
  toggle, the second and third control still have neither attribute.
\<close>

theorem toggleTheme_updates_first_control_only:
  "hasReturned (andThen (pageLoad freshPage) toggleTheme) \<and>
   dataTheme (pageOf (andThen (pageLoad freshPage) toggleTheme)) = Some ''dark'' \<and>
   map ariaPressed (toggleControls (pageOf (andThen (pageLoad freshPage) toggleTheme))) =
     [Some ''true'', None, None] \<and>
   map title (toggleControls (pageOf (andThen (pageLoad freshPage) toggleTheme))) =
     [Some ''Switch to Light Mode'', None, None] \<and>
   map clickTogglesTheme (toggleControls (pageOf (andThen (pageLoad freshPage) toggleTheme))) =
     [True, True, True]"
  by (simp add: Let_def pageLoad_def runScript_def fireDOMContentLoaded_def initTheme_def
      antiFlash_def toggleTheme_def applyTheme_when_setItem_returns getSavedTheme_def
      getItem_def freshPage_def freshControl_def LIGHT_THEME_def DARK_THEME_def
      updateToggle_def)

text \<open>
  Claim C3, as stated: when the store throws on write, \<^verbatim>\<open>applyTheme\<close> still updates the
  marker and every toggle control, and no fault leaves it. It fails: with a store that
  throws, \<^verbatim>\<open>applyTheme('dark')\<close> throws, and no control has been touched.
\<close>

theorem applyTheme_denied_store_counterexample:
  "applyTheme DARK_THEME (freshPage\<lparr>setItemThrows := True\<rparr>) =
     Thrown StorageError (freshPage\<lparr>setItemThrows := True, dataTheme := Some DARK_THEME\<rparr>) \<and>
   map ariaPressed
     (toggleControls (pageOf (applyTheme DARK_THEME (freshPage\<lparr>setItemThrows := True\<rparr>)))) =
     [None, None, None] \<and>
   map title
     (toggleControls (pageOf (applyTheme DARK_THEME (freshPage\<lparr>setItemThrows := True\<rparr>)))) =
     [None, None, None]"
  by (simp add: applyTheme_when_setItem_throws freshPage_def freshControl_def)

text \<open>
  Claim C3, amended: when the store throws on write, \<^verbatim>\<open>applyTheme(t)\<close> sets the marker
  to \<open>t\<close> and then the fault of the store leaves \<^verbatim>\<open>applyTheme\<close> uncaught; the stored items
  and the toggle controls are as they were before the call.
\<close>

theorem applyTheme_denied_store:
  "setItemThrows s \<Longrightarrow>
   \<not> hasReturned (applyTheme t s) \<and>
   dataTheme (pageOf (applyTheme t s)) = Some t \<and>
   localStorage (pageOf (applyTheme t s)) = localStorage s \<and>
   toggleControls (pageOf (applyTheme t s)) = toggleControls s"
  by (simp add: applyTheme_when_setItem_throws)

theorem applyTheme_denied_store_witness:
  "setItemThrows (freshPage\<lparr>setItemThrows := True\<rparr>) \<and>
   \<not> hasReturned (applyTheme DARK_THEME (freshPage\<lparr>setItemThrows := True\<rparr>)) \<and>
   dataTheme (pageOf (applyTheme DARK_THEME (freshPage\<lparr>setItemThrows := True\<rparr>))) =
     Some DARK_THEME \<and>
   toggleControls (pageOf (applyTheme DARK_THEME (freshPage\<lparr>setItemThrows := True\<rparr>))) =
     toggleControls (freshPage\<lparr>setItemThrows := True\<rparr>)"
proof -
  have h: "setItemThrows (freshPage\<lparr>setItemThrows := True\<rparr>)"
    by simp
  from applyTheme_denied_store [OF h, of DARK_THEME] h show ?thesis
    by blast
qed

text \<open>
  Claim C4. \<^verbatim>\<open>checkSystemPreference\<close> (the resolution of the initial theme) returns the
  stored entry whenever there is one, whatever the system preference; when there is no
  entry it returns \<^verbatim>\<open>dark\<close> if the system prefers dark and \<^verbatim>\<open>light\<close> otherwise. An entry
  of the store is the text \<^verbatim>\<open>light\<close> or \<^verbatim>\<open>dark\<close>, the only values the script ever stores;
  the first part holds for these, and for every other entry that is not the empty string.
\<close>

theorem checkSystemPreference_precedence:
  "(getItem s THEME_KEY = Some v \<and> v \<noteq> [] \<longrightarrow> checkSystemPreference s = v) \<and>
   (getItem s THEME_KEY = None \<longrightarrow>
      checkSystemPreference s = (if prefersDark s then DARK_THEME else LIGHT_THEME))"
  by (auto simp add: checkSystemPreference_def getSavedTheme_def)

theorem checkSystemPreference_precedence_witness:
  "getItem (freshPage\<lparr>localStorage := [THEME_KEY \<mapsto> LIGHT_THEME]\<rparr>) THEME_KEY = Some LIGHT_THEME \<and>
   LIGHT_THEME \<noteq> [] \<and>
   prefersDark (freshPage\<lparr>localStorage := [THEME_KEY \<mapsto> LIGHT_THEME]\<rparr>) \<and>
   checkSystemPreference (freshPage\<lparr>localStorage := [THEME_KEY \<mapsto> LIGHT_THEME]\<rparr>) = LIGHT_THEME \<and>
   getItem (freshPage\<lparr>localStorage := [THEME_KEY \<mapsto> DARK_THEME], prefersDark := False\<rparr>) THEME_KEY =
     Some DARK_THEME \<and>
   DARK_THEME \<noteq> [] \<and>
   checkSystemPreference (freshPage\<lparr>localStorage := [THEME_KEY \<mapsto> DARK_THEME], prefersDark := False\<rparr>) =
     DARK_THEME \<and>
   getItem freshPage THEME_KEY = None \<and> prefersDark freshPage \<and>
   checkSystemPreference freshPage = DARK_THEME \<and>
   getItem (freshPage\<lparr>prefersDark := False\<rparr>) THEME_KEY = None \<and>
   checkSystemPreference (freshPage\<lparr>prefersDark := False\<rparr>) = LIGHT_THEME"
proof -
  have a: "getItem (freshPage\<lparr>localStorage := [THEME_KEY \<mapsto> LIGHT_THEME]\<rparr>) THEME_KEY = Some LIGHT_THEME"
    "getItem (freshPage\<lparr>localStorage := [THEME_KEY \<mapsto> DARK_THEME], prefersDark := False\<rparr>) THEME_KEY =
       Some DARK_THEME"
    by (simp_all add: getItem_def)
  have n: "LIGHT_THEME \<noteq> []" "DARK_THEME \<noteq> []"
    by (simp_all add: LIGHT_THEME_def DARK_THEME_def)
  have b: "getItem freshPage THEME_KEY = None" "prefersDark freshPage"
    by (simp_all add: getItem_def freshPage_def)
  have c: "getItem (freshPage\<lparr>prefersDark := False\<rparr>) THEME_KEY = None"
    "\<not> prefersDark (freshPage\<lparr>prefersDark := False\<rparr>)"
    "prefersDark (freshPage\<lparr>localStorage := [THEME_KEY \<mapsto> LIGHT_THEME]\<rparr>)"
    by (simp_all add: getItem_def freshPage_def)
  from checkSystemPreference_precedence
         [of "freshPage\<lparr>localStorage := [THEME_KEY \<mapsto> LIGHT_THEME]\<rparr>" LIGHT_THEME]
       checkSystemPreference_precedence
         [of "freshPage\<lparr>localStorage := [THEME_KEY \<mapsto> DARK_THEME], prefersDark := False\<rparr>"
             DARK_THEME]
       checkSystemPreference_precedence [of freshPage]
       checkSystemPreference_precedence [of "freshPage\<lparr>prefersDark := False\<rparr>"]
       a n b c
  show ?thesis by simp
qed

text \<open>
  Claim C5. With a store that accepts the write, \<^verbatim>\<open>applyTheme(t)\<close> returns, and
  afterwards the marker reads \<open>t\<close> and the item stored under the preference key reads \<open>t\<close>.
  This holds for every string \<open>t\<close>, so for \<^verbatim>\<open>light\<close> and \<^verbatim>\<open>dark\<close>.
\<close>

theorem applyTheme_sets_marker_and_store:
  "\<not> setItemThrows s \<Longrightarrow>
   hasReturned (applyTheme t s) \<and>
   dataTheme (pageOf (applyTheme t s)) = Some t \<and>
   getItem (pageOf (applyTheme t s)) THEME_KEY = Some t"
  by (simp add: applyTheme_when_setItem_returns getItem_def)

theorem applyTheme_sets_marker_and_store_witness:
  "\<not> setItemThrows freshPage \<and>
   hasReturned (applyTheme DARK_THEME freshPage) \<and>
   dataTheme (pageOf (applyTheme DARK_THEME freshPage)) = Some DARK_THEME \<and>
   getItem (pageOf (applyTheme DARK_THEME freshPage)) THEME_KEY = Some DARK_THEME \<and>
   hasReturned (applyTheme LIGHT_THEME freshPage) \<and>
   dataTheme (pageOf (applyTheme LIGHT_THEME freshPage)) = Some LIGHT_THEME \<and>
   getItem (pageOf (applyTheme LIGHT_THEME freshPage)) THEME_KEY = Some LIGHT_THEME"
proof -
  have h: "\<not> setItemThrows freshPage"
    by (simp add: freshPage_def)
  from applyTheme_sets_marker_and_store [OF h, of DARK_THEME]
       applyTheme_sets_marker_and_store [OF h, of LIGHT_THEME] h
  show ?thesis by blast
qed

text \<open>
  Claim C6. \<^verbatim>\<open>applyTheme\<close> is idempotent: for every \<open>t\<close> and every starting page, the
  statement \<^verbatim>\<open>applyTheme(t); applyTheme(t);\<close> has the outcome of a single \<^verbatim>\<open>applyTheme(t)\<close>,
  and so has a second call on the page the first one left: the same marker, the same
  stored items, the same attributes on every toggle control (and the same fault, when
  the store throws).
\<close>

theorem applyTheme_idempotent:
  "andThen (applyTheme t s) (applyTheme t) = applyTheme t s \<and>
   applyTheme t (pageOf (applyTheme t s)) = applyTheme t s"
  by (cases "setItemThrows s")
    (simp_all add: applyTheme_when_setItem_returns applyTheme_when_setItem_throws
      updateFirstToggle_twice)

text \<open>
  Claim C7, as stated: from every starting page, two calls of \<^verbatim>\<open>toggleTheme\<close> restore the
  marker and the stored value. It fails in three ways. After the anti-flash pass of a
  first visit the marker is \<^verbatim>\<open>dark\<close> and nothing is stored: two toggles leave \<^verbatim>\<open>dark\<close>
  stored. With no marker at all, two toggles leave the marker \<^verbatim>\<open>light\<close>. With a store that
  throws, the first toggle changes the marker and throws.
\<close>

theorem toggleTheme_twice_counterexample:
  "hasReturned (andThen (toggleTheme (freshPage\<lparr>dataTheme := Some DARK_THEME\<rparr>)) toggleTheme) \<and>
   getItem (freshPage\<lparr>dataTheme := Some DARK_THEME\<rparr>) THEME_KEY = None \<and>
   getItem (pageOf (andThen (toggleTheme (freshPage\<lparr>dataTheme := Some DARK_THEME\<rparr>)) toggleTheme))
     THEME_KEY = Some ''dark'' \<and>
   dataTheme freshPage = None \<and>
   dataTheme (pageOf (andThen (toggleTheme freshPage) toggleTheme)) = Some ''light'' \<and>
   dataTheme (freshPage\<lparr>dataTheme := Some ''dark'', setItemThrows := True\<rparr>) = Some ''dark'' \<and>
   andThen (toggleTheme (freshPage\<lparr>dataTheme := Some ''dark'', setItemThrows := True\<rparr>)) toggleTheme =
     Thrown StorageError (freshPage\<lparr>dataTheme := Some ''light'', setItemThrows := True\<rparr>)"
  by (simp add: toggleTheme_applies_other applyTheme_when_setItem_returns
      applyTheme_when_setItem_throws getItem_def LIGHT_THEME_def DARK_THEME_def freshPage_def)

text \<open>
  Claim C7, amended: from every starting page whose store accepts writes, whose marker
  is \<^verbatim>\<open>light\<close> or \<^verbatim>\<open>dark\<close> and whose stored value equals the marker (the page that
  \<^verbatim>\<open>initTheme\<close> leaves), two calls of \<^verbatim>\<open>toggleTheme\<close> return and restore the marker and the
  stored value.
\<close>

theorem toggleTheme_twice_restores:
  assumes "\<not> setItemThrows s"
    and "t = LIGHT_THEME \<or> t = DARK_THEME"
    and "dataTheme s = Some t"
    and "getItem s THEME_KEY = Some t"
  shows "hasReturned (andThen (toggleTheme s) toggleTheme) \<and>
    dataTheme (pageOf (andThen (toggleTheme s) toggleTheme)) = dataTheme s \<and>
    getItem (pageOf (andThen (toggleTheme s) toggleTheme)) THEME_KEY = getItem s THEME_KEY"
  using assms
  by (auto simp add: toggleTheme_applies_other applyTheme_when_setItem_returns getItem_def
      LIGHT_THEME_def DARK_THEME_def)

theorem toggleTheme_twice_restores_witness:
  "\<not> setItemThrows (pageOf (pageLoad freshPage)) \<and>
   dataTheme (pageOf (pageLoad freshPage)) = Some LIGHT_THEME \<and>
   getItem (pageOf (pageLoad freshPage)) THEME_KEY = Some LIGHT_THEME \<and>
   hasReturned (andThen (toggleTheme (pageOf (pageLoad freshPage))) toggleTheme) \<and>
   dataTheme (pageOf (andThen (toggleTheme (pageOf (pageLoad freshPage))) toggleTheme)) =
     Some LIGHT_THEME \<and>
   getItem (pageOf (andThen (toggleTheme (pageOf (pageLoad freshPage))) toggleTheme)) THEME_KEY =
     Some LIGHT_THEME"
proof -
  have h: "\<not> setItemThrows (pageOf (pageLoad freshPage))"
    "dataTheme (pageOf (pageLoad freshPage)) = Some LIGHT_THEME"
    "getItem (pageOf (pageLoad freshPage)) THEME_KEY = Some LIGHT_THEME"
    by (simp_all add: Let_def pageLoad_def runScript_def fireDOMContentLoaded_def initTheme_def
        antiFlash_def applyTheme_when_setItem_returns getSavedTheme_def getItem_def
        freshPage_def)
  from toggleTheme_twice_restores [OF h(1) _ h(2) h(3)] h show ?thesis
    by simp
qed

text \<open>
  Claim C8. The resolution of the initial theme and the anti-flash pass that applies it
  never change the store: \<^verbatim>\<open>checkSystemPreference\<close> only reads the page, and the pass
  writes the marker and nothing else, so the stored items (and the entry under the
  preference key, present or absent) are what they were, the page differs from the old one
  in its marker at most, and resolving again gives the same theme.
\<close>

theorem antiFlash_leaves_store:
  "localStorage (antiFlash s) = localStorage s \<and>
   getItem (antiFlash s) THEME_KEY = getItem s THEME_KEY \<and>
   (antiFlash s)\<lparr>dataTheme := dataTheme s\<rparr> = s \<and>
   dataTheme (antiFlash s) = Some (checkSystemPreference s) \<and>
   checkSystemPreference (antiFlash s) = checkSystemPreference s"
  by (simp add: antiFlash_def getItem_def checkSystemPreference_def getSavedTheme_def)

text \<open>
  Claim C9. The anti-flash pass runs when the script is evaluated, before \<^verbatim>\<open>initTheme\<close>;
  the claim expects both phases to resolve the theme in the same way. They do not: the
  pass calls \<^verbatim>\<open>checkSystemPreference\<close>, \<^verbatim>\<open>initTheme\<close> calls \<^verbatim>\<open>getSavedTheme\<close>. On a first
  visit with a system preference for dark the first phase resolves \<^verbatim>\<open>dark\<close> and leaves the
  marker \<^verbatim>\<open>dark\<close>, the second resolves \<^verbatim>\<open>light\<close> and leaves the marker \<^verbatim>\<open>light\<close>.
\<close>

theorem phases_resolve_differently:
  "checkSystemPreference freshPage = ''dark'' \<and>
   dataTheme (pageOf (runScript freshPage)) = Some ''dark'' \<and>
   initThemeOnDOMContentLoaded (pageOf (runScript freshPage)) \<and>
   getSavedTheme (pageOf (runScript freshPage)) = ''light'' \<and>
   dataTheme (pageOf (andThen (runScript freshPage) fireDOMContentLoaded)) = Some ''light''"
  by (simp add: Let_def checkSystemPreference_def runScript_def fireDOMContentLoaded_def
      initTheme_def antiFlash_def applyTheme_when_setItem_returns getSavedTheme_def
      getItem_def freshPage_def LIGHT_THEME_def DARK_THEME_def)

section \<open>The claim about the alerts\<close>

text \<open>
  Claim C10. For every alert with the \<^verbatim>\<open>data-dismiss\<close> attribute whose value parses to
  zero or does not parse to a number, the delay is the default of 5000 milliseconds:
  \<^verbatim>\<open>initAlerts\<close> sets one timer per alert, and the timer of this alert is due 5000
  milliseconds after the call. When it fires, the opacity becomes \<^verbatim>\<open>0\<close>, the alert is
  still in the document, and a timer for its removal is due 300 milliseconds later, at
  5300 milliseconds; when that one fires the alert leaves the document.
\<close>

theorem falsy_dismiss_delay_is_default:
  assumes "i < length (alerts s)"
    and "parseInt (dismiss (alerts s ! i)) = None \<or> parseInt (dismiss (alerts s ! i)) = Some 0"
  shows "dismissTime (alerts s ! i) = 5000 \<and>
    length (timers (initAlerts s)) = length (timers s) + length (alerts s) \<and>
    timers (initAlerts s) ! (length (timers s) + i) = (now s + 5000, FadeOut i) \<and>
    (let s1 = fireTimer (now s + 5000, FadeOut i) (initAlerts s) in
       now s1 = now s + 5000 \<and> opacity (alerts s1 ! i) = ''0'' \<and>
       inDocument (alerts s1 ! i) = inDocument (alerts s ! i) \<and>
       last (timers s1) = (now s + 5300, RemoveAlert i) \<and>
       (let s2 = fireTimer (now s + 5300, RemoveAlert i) s1 in
          now s2 = now s + 5300 \<and> \<not> inDocument (alerts s2 ! i)))"
proof -
  have d: "dismissTime (alerts s ! i) = 5000"
    using assms(2) by (rule dismissTime_falsy)
  have len: "length (timers (initAlerts s)) = length (timers s) + length (alerts s)"
    by (simp add: initAlerts_def scheduleAlerts_timers)
  have at: "timers (initAlerts s) ! (length (timers s) + i) = (now s + 5000, FadeOut i)"
    using assms(1) d by (simp add: initAlerts_timer_at toInt32_5000)
  have a: "alerts (initAlerts s) = alerts s" and n: "now (initAlerts s) = now s"
    by (simp_all add: initAlerts_def scheduleAlerts_alerts scheduleAlerts_now)
  show ?thesis
    using assms(1) d len at
    by (simp add: Let_def fireTimer_def setTimeout_def a n toInt32_300)
qed

theorem falsy_dismiss_delay_is_default_witness:
  "(0::nat) < length (alerts exampleAlerts) \<and>
   parseInt (dismiss (alerts exampleAlerts ! 0)) = None \<and>
   dismissTime (alerts exampleAlerts ! 0) = 5000 \<and>
   timers (initAlerts exampleAlerts) ! 0 = (5000, FadeOut 0) \<and>
   (1::nat) < length (alerts exampleAlerts) \<and>
   parseInt (dismiss (alerts exampleAlerts ! 1)) = Some 0 \<and>
   dismissTime (alerts exampleAlerts ! 1) = 5000 \<and>
   timers (initAlerts exampleAlerts) ! 1 = (5000, FadeOut 1) \<and>
   last (timers (fireTimer (5000, FadeOut 1) (initAlerts exampleAlerts))) = (5300, RemoveAlert 1)"
proof -
  have h0: "0 < length (alerts exampleAlerts)" and h1: "1 < length (alerts exampleAlerts)"
    by (simp_all add: exampleAlerts_def)
  have p0: "parseInt (dismiss (alerts exampleAlerts ! 0)) = None"
    by (simp add: exampleAlerts_def parseInt_soon)
  have p1: "parseInt (dismiss (alerts exampleAlerts ! 1)) = Some 0"
    by (simp add: exampleAlerts_def parseInt_zero)
  have t: "timers exampleAlerts = []" "now exampleAlerts = 0"
    by (simp_all add: exampleAlerts_def)
  from falsy_dismiss_delay_is_default [of 0 exampleAlerts]
       falsy_dismiss_delay_is_default [of 1 exampleAlerts] h0 h1 p0 p1 t
  show ?thesis by (simp add: Let_def)
qed

end
